theory Spec2Isabelle
  imports Main "HOL-Library.List_Lexorder" "HOL-Library.Mapping" "HOL-Library.Multiset"
begin

section \<open>Python values used by the MPIN strength checker\<close>

text \<open>
  A Python \<open>str\<close> is a sequence of Unicode code points, and \<open>len\<close>, \<open>==\<close>, \<open><\<close> and
  \<open>str.isdigit\<close> all work on code points. A string is therefore a list of code points
  (natural numbers); the order on lists is the lexicographic one, which is Python's order
  on \<open>str\<close>. \<open>str\<close> turns an ASCII literal into such a string.
\<close>

type_synonym codepoint = nat
type_synonym pystr = "codepoint list"

definition str :: "string \<Rightarrow> pystr" where
  "str s = map of_char s"

text \<open>
  \<open>str.isdigit\<close>: true when the string is not empty and every character has a Unicode
  digit value (Numeric_Type Decimal or Digit). The ranges are those of Unicode 15.0, the
  database of CPython 3.12 named in the notebook's metadata. Besides \<open>0\<close>..\<open>9\<close>
  (48..57) they hold the decimal digits of other scripts and characters such as the
  superscripts U+00B2, U+00B3 and U+00B9.
\<close>

definition digit_ranges :: "(codepoint \<times> codepoint) list" where
  "digit_ranges =
    [(48, 57), (178, 179), (185, 185), (1632, 1641), (1776, 1785), (1984, 1993),
     (2406, 2415), (2534, 2543), (2662, 2671), (2790, 2799), (2918, 2927), (3046, 3055),
     (3174, 3183), (3302, 3311), (3430, 3439), (3558, 3567), (3664, 3673), (3792, 3801),
     (3872, 3881), (4160, 4169), (4240, 4249), (4969, 4977), (6112, 6121), (6160, 6169),
     (6470, 6479), (6608, 6618), (6784, 6793), (6800, 6809), (6992, 7001), (7088, 7097),
     (7232, 7241), (7248, 7257), (8304, 8304), (8308, 8313), (8320, 8329), (9312, 9320),
     (9332, 9340), (9352, 9360), (9450, 9450), (9461, 9469), (9471, 9471), (10102, 10110),
     (10112, 10120), (10122, 10130), (42528, 42537), (43216, 43225), (43264, 43273),
     (43472, 43481), (43504, 43513), (43600, 43609), (44016, 44025), (65296, 65305),
     (66720, 66729), (68160, 68163), (68912, 68921), (69216, 69224), (69714, 69722),
     (69734, 69743), (69872, 69881), (69942, 69951), (70096, 70105), (70384, 70393),
     (70736, 70745), (70864, 70873), (71248, 71257), (71360, 71369), (71472, 71481),
     (71904, 71913), (72016, 72025), (72784, 72793), (73040, 73049), (73120, 73129),
     (73552, 73561), (92768, 92777), (92864, 92873), (93008, 93017), (120782, 120831),
     (123200, 123209), (123632, 123641), (124144, 124153), (125264, 125273),
     (127232, 127242), (130032, 130041)]"

definition isdigit_cp :: "codepoint \<Rightarrow> bool" where
  "isdigit_cp c = list_ex (\<lambda>(lo, hi). lo \<le> c \<and> c \<le> hi) digit_ranges"

definition isdigit :: "pystr \<Rightarrow> bool" where
  "isdigit s = (s \<noteq> [] \<and> list_all isdigit_cp s)"

text \<open>
  \<open>datetime.date\<close>: three integer attributes. The class only builds calendar dates:
  a year from 1 to 9999, a month from 1 to 12 and a day that the month has.
\<close>

record date =
  year :: int
  month :: int
  day :: int

definition is_leap :: "int \<Rightarrow> bool" where
  "is_leap y = (y mod 4 = 0 \<and> (y mod 100 \<noteq> 0 \<or> y mod 400 = 0))"

definition days_in_month :: "int \<Rightarrow> int \<Rightarrow> int" where
  "days_in_month y m =
     (if m = 2 then (if is_leap y then 29 else 28)
      else if m \<in> {4, 6, 9, 11} then 30 else 31)"

definition is_calendar_date :: "date \<Rightarrow> bool" where
  "is_calendar_date d =
     (1 \<le> year d \<and> year d \<le> 9999 \<and> 1 \<le> month d \<and> month d \<le> 12 \<and>
      1 \<le> day d \<and> day d \<le> days_in_month (year d) (month d))"

text \<open>
  The format specification \<open>0wd\<close> of an f-string (\<open>f"{n:02d}"\<close>, \<open>f"{n:04d}"\<close>): the
  decimal digits of the integer, filled with zeros on the left up to \<open>w\<close> characters,
  the sign of a negative number coming first and counting in the width. A number with
  more digits than \<open>w\<close> is written in full.
\<close>

fun str_of_nat :: "nat \<Rightarrow> pystr" where
  "str_of_nat n = (if n < 10 then [48 + n] else str_of_nat (n div 10) @ [48 + n mod 10])"

declare str_of_nat.simps [simp del]

definition format_0d :: "nat \<Rightarrow> int \<Rightarrow> pystr" where
  "format_0d w n =
     (let sign = (if n < 0 then [45] else []);
          digits = str_of_nat (nat \<bar>n\<bar>)
      in sign @ replicate (w - length sign - length digits) 48 @ digits)"

section \<open>The notebook's constants\<close>

definition COMMONLY_USED_4_DIGIT_PINS :: "pystr set" where
  "COMMONLY_USED_4_DIGIT_PINS = str ` {
     ''1234'', ''9876'', ''1111'', ''2222'', ''3333'', ''4444'', ''5555'', ''6666'', ''7777'',
     ''8888'', ''9999'', ''0000'',
     ''1122'', ''1212'', ''2580'', ''1990'', ''1991'', ''1992'', ''1993'', ''1994'', ''1995'',
     ''1996'', ''1997'', ''1998'', ''1999'',
     ''2000'', ''2001'', ''2002'', ''2003'', ''2004'', ''2005''}"

definition COMMONLY_USED_6_DIGIT_PINS :: "pystr set" where
  "COMMONLY_USED_6_DIGIT_PINS = str ` {
     ''123456'', ''987654'', ''111111'', ''222222'', ''333333'', ''444444'', ''555555'',
     ''666666'', ''777777'', ''888888'', ''999999'', ''000000'',
     ''123123'', ''112233''}"

section \<open>The pattern generator\<close>

text \<open>
  \<open>_generate_demographic_pins(date_obj, length)\<close>. The argument \<open>date_obj\<close> may be
  \<open>None\<close>, which is the only falsy value it can have (a date object is always truthy).
  \<open>day * 2\<close> repeats a string, so it is \<open>day + day\<close>. The parameter \<open>length\<close> is called
  \<open>len\<close> here.
\<close>

definition generate_demographic_pins :: "date option \<Rightarrow> int \<Rightarrow> pystr set" where
  "generate_demographic_pins date_obj len =
     (case date_obj of
        None \<Rightarrow> {}
      | Some d \<Rightarrow>
          (let day = format_0d 2 (date.day d);
               month = format_0d 2 (date.month d);
               year_yy = format_0d 2 (date.year d mod 100);
               year_yyyy = format_0d 4 (date.year d)
           in if len = 4 then
                {day @ month, month @ day, year_yyyy, day @ year_yy, year_yy @ day,
                 month @ year_yy, year_yy @ month, day @ day, month @ month,
                 year_yy @ year_yy}
              else if len = 6 then
                {day @ month @ year_yy, month @ day @ year_yy,
                 year_yy @ month @ day, year_yy @ day @ month}
              else {}))"

section \<open>The classifier\<close>

datatype error = ValueError string

record result =
  strength :: pystr
  reasons :: "pystr list"

text \<open>
  The optional argument \<open>demographics\<close> is \<open>None\<close> or a dictionary from strings to
  dates; the interactive runner stores \<open>None\<close> for a date that was skipped, so a value
  is an optional date.
\<close>

type_synonym demographics = "(pystr, date option) mapping option"

text \<open>The dictionary \<open>demographic_map\<close>, as the list of its items in insertion order.\<close>

definition demographic_map :: "(pystr \<times> pystr) list" where
  "demographic_map =
     [(str ''dob_self'', str ''DEMOGRAPHIC_DOB_SELF''),
      (str ''dob_spouse'', str ''DEMOGRAPHIC_DOB_SPOUSE''),
      (str ''anniversary'', str ''DEMOGRAPHIC_ANNIVERSARY'')]"

text \<open>
  The loop \<open>for key, reason_code in demographic_map.items()\<close>, as a recursion over the
  items that passes the set \<open>reasons\<close> along (as \<open>rs\<close>). \<open>demographics.get(key)\<close> is
  truthy exactly when the key is bound to a date, and then \<open>demographics[key]\<close> is that
  date.
\<close>

fun demographic_loop ::
  "(pystr \<times> pystr) list \<Rightarrow> (pystr, date option) mapping \<Rightarrow> pystr \<Rightarrow> int \<Rightarrow> pystr set
     \<Rightarrow> pystr set" where
  "demographic_loop [] demographics mpin pin_length rs = rs"
| "demographic_loop ((key, reason_code) # items) demographics mpin pin_length rs =
     demographic_loop items demographics mpin pin_length
       (case Mapping.lookup demographics key of
          Some (Some date_obj) \<Rightarrow>
            (let demographic_pins = generate_demographic_pins (Some date_obj) pin_length
             in if mpin \<in> demographic_pins then insert reason_code rs else rs)
        | _ \<Rightarrow> rs)"

text \<open>
  \<open>check_mpin_strength_in_order items\<close> is the body of \<open>check_mpin_strength\<close> with the
  items of the role dictionary as a parameter; the function of the notebook is the one
  at \<open>demographic_map\<close>. A raised \<open>ValueError\<close> is the \<open>Inl\<close> result. The set
  \<open>reasons\<close>, which the code updates in place, is \<open>rs0\<close>, \<open>rs1\<close>, \<open>rs2\<close> in turn, and
  \<open>sorted(list(reasons))\<close> is the sorted list of the set's elements.
\<close>

definition check_mpin_strength_in_order ::
  "(pystr \<times> pystr) list \<Rightarrow> pystr \<Rightarrow> demographics \<Rightarrow> error + result" where
  "check_mpin_strength_in_order items mpin demographics =
     (if \<not> isdigit mpin \<or> int (length mpin) \<notin> set [4, 6] then
        Inl (ValueError ''MPIN must be a 4 or 6-digit string.'')
      else
        let rs0 = {};
            pin_length = int (length mpin);
            common_pins = (if pin_length = 4 then COMMONLY_USED_4_DIGIT_PINS
                           else COMMONLY_USED_6_DIGIT_PINS);
            rs1 = (if mpin \<in> common_pins then insert (str ''COMMONLY_USED'') rs0 else rs0);
            rs2 = (case demographics of
                     None \<Rightarrow> rs1
                   | Some dm \<Rightarrow>
                       if Mapping.is_empty dm then rs1
                       else demographic_loop items dm mpin pin_length rs1);
            st = (if rs2 \<noteq> {} then str ''WEAK'' else str ''STRONG'')
        in Inr \<lparr>strength = st, reasons = sorted_list_of_set rs2\<rparr>)"

definition check_mpin_strength :: "pystr \<Rightarrow> demographics \<Rightarrow> error + result" where
  "check_mpin_strength mpin demographics =
     check_mpin_strength_in_order demographic_map mpin demographics"

text \<open>The dictionary \<open>cls.demographics\<close> that the class \<open>TestMpinChecker\<close> sets up.\<close>

definition test_demographics :: "(pystr, date option) mapping" where
  "test_demographics =
     Mapping.of_alist
       [(str ''dob_self'', Some \<lparr>year = 1992, month = 8, day = 15\<rparr>),
        (str ''dob_spouse'', Some \<lparr>year = 1994, month = 3, day = 3\<rparr>),
        (str ''anniversary'', Some \<lparr>year = 2018, month = 11, day = 20\<rparr>)]"

section \<open>The specification's vocabulary\<close>

text \<open>
  The specification's words, for comparison with the code. A valid PIN is a string of
  the decimal digits \<open>0\<close>..\<open>9\<close> of length 4 or 6.
\<close>

definition spec_valid_pin :: "pystr \<Rightarrow> bool" where
  "spec_valid_pin mpin =
     (list_all (\<lambda>c. 48 \<le> c \<and> c \<le> 57) mpin \<and> (length mpin = 4 \<or> length mpin = 6))"

text \<open>
  A number zero-padded to \<open>w\<close> digits: the string of its \<open>w\<close> lowest decimal digits,
  the highest first.
\<close>

definition spec_zero_pad :: "nat \<Rightarrow> int \<Rightarrow> pystr" where
  "spec_zero_pad w n = map (\<lambda>i. 48 + nat (n div 10 ^ (w - 1 - i) mod 10)) [0..<w]"

definition spec_dd :: "date \<Rightarrow> pystr" where
  "spec_dd d = spec_zero_pad 2 (day d)"

definition spec_mm :: "date \<Rightarrow> pystr" where
  "spec_mm d = spec_zero_pad 2 (month d)"

definition spec_yy :: "date \<Rightarrow> pystr" where
  "spec_yy d = spec_zero_pad 2 (year d mod 100)"

definition spec_yyyy :: "date \<Rightarrow> pystr" where
  "spec_yyyy d = spec_zero_pad 4 (year d)"

text \<open>The date supplied for a role: the dictionary is given and binds the key to a date.\<close>

definition role_date :: "demographics \<Rightarrow> pystr \<Rightarrow> date option" where
  "role_date demographics key =
     (case demographics of
        None \<Rightarrow> None
      | Some dm \<Rightarrow> (case Mapping.lookup dm key of Some (Some d) \<Rightarrow> Some d | _ \<Rightarrow> None))"

text \<open>The reason a role contributes: its code when the PIN is a pattern of its date.\<close>

definition spec_role_reason :: "pystr \<Rightarrow> demographics \<Rightarrow> pystr \<Rightarrow> pystr \<Rightarrow> pystr set" where
  "spec_role_reason mpin demographics key reason_code =
     (case role_date demographics key of
        None \<Rightarrow> {}
      | Some d \<Rightarrow>
          if mpin \<in> generate_demographic_pins (Some d) (int (length mpin))
          then {reason_code} else {})"

definition spec_common_reason :: "pystr \<Rightarrow> pystr set" where
  "spec_common_reason mpin =
     (if mpin \<in> (if length mpin = 4 then COMMONLY_USED_4_DIGIT_PINS
                  else COMMONLY_USED_6_DIGIT_PINS)
      then {str ''COMMONLY_USED''} else {})"

definition spec_reasons :: "pystr \<Rightarrow> demographics \<Rightarrow> pystr set" where
  "spec_reasons mpin demographics =
     spec_common_reason mpin
     \<union> spec_role_reason mpin demographics (str ''dob_self'') (str ''DEMOGRAPHIC_DOB_SELF'')
     \<union> spec_role_reason mpin demographics (str ''dob_spouse'') (str ''DEMOGRAPHIC_DOB_SPOUSE'')
     \<union> spec_role_reason mpin demographics (str ''anniversary'') (str ''DEMOGRAPHIC_ANNIVERSARY'')"

text \<open>
  The dictionary \<open>d'\<close> agrees with \<open>d\<close> on every role that \<open>d\<close> supplies a date for
  (and may supply dates for further roles).
\<close>

definition spec_extends :: "demographics \<Rightarrow> demographics \<Rightarrow> bool" where
  "spec_extends d d' =
     list_all (\<lambda>(key, reason_code). role_date d key = None \<or> role_date d' key = role_date d key)
       demographic_map"

section \<open>Formatting\<close>

lemma str_of_nat_1: "n < 10 \<Longrightarrow> str_of_nat n = [48 + n]"
  by (simp add: str_of_nat.simps)

lemma str_of_nat_step: "10 \<le> n \<Longrightarrow> str_of_nat n = str_of_nat (n div 10) @ [48 + n mod 10]"
  by (subst str_of_nat.simps) simp

lemma spec_zero_pad_2: "spec_zero_pad 2 n = [48 + nat (n div 10 mod 10), 48 + nat (n mod 10)]"
  by (simp add: spec_zero_pad_def upt_rec numeral_2_eq_2)

lemma spec_zero_pad_4:
  "spec_zero_pad 4 n =
     [48 + nat (n div 1000 mod 10), 48 + nat (n div 100 mod 10),
      48 + nat (n div 10 mod 10), 48 + nat (n mod 10)]"
  by (simp add: spec_zero_pad_def upt_rec numeral_eq_Suc)

lemma str_of_nat_2: "10 \<le> n \<Longrightarrow> n < 100 \<Longrightarrow> str_of_nat n = [48 + n div 10, 48 + n mod 10]"
  by (simp add: str_of_nat_step str_of_nat_1)

lemma str_of_nat_3:
  "100 \<le> n \<Longrightarrow> n < 1000 \<Longrightarrow> str_of_nat n = [48 + n div 100, 48 + n div 10 mod 10, 48 + n mod 10]"
  by (simp add: str_of_nat_step [of n] str_of_nat_2 div_mult2_eq [symmetric])

lemma str_of_nat_4:
  "1000 \<le> n \<Longrightarrow> n < 10000 \<Longrightarrow>
   str_of_nat n = [48 + n div 1000, 48 + n div 100 mod 10, 48 + n div 10 mod 10, 48 + n mod 10]"
  by (simp add: str_of_nat_step [of n] str_of_nat_3 div_mult2_eq [symmetric])

lemma format_0d_2:
  assumes "0 \<le> n" "n < 100"
  shows "format_0d 2 n = spec_zero_pad 2 n"
proof (cases "n < 10")
  case True
  with assms have "str_of_nat (nat n) = [48 + nat n]" by (simp add: str_of_nat_1)
  with assms have "format_0d 2 n = [48, 48 + nat n]"
    by (simp add: format_0d_def numeral_2_eq_2)
  moreover from assms True have "spec_zero_pad 2 n = [48, 48 + nat n]"
    by (simp add: spec_zero_pad_2)
  ultimately show ?thesis by simp
next
  case False
  with assms have "str_of_nat (nat n) = [48 + nat n div 10, 48 + nat n mod 10]"
    by (simp add: str_of_nat_2)
  with assms have "format_0d 2 n = [48 + nat n div 10, 48 + nat n mod 10]"
    by (simp add: format_0d_def)
  moreover from assms False have "spec_zero_pad 2 n = [48 + nat n div 10, 48 + nat n mod 10]"
    by (simp add: spec_zero_pad_2 nat_div_distrib nat_mod_distrib)
  ultimately show ?thesis by simp
qed

lemma format_0d_4:
  assumes "0 \<le> n" "n < 10000"
  shows "format_0d 4 n = spec_zero_pad 4 n"
proof -
  define m where "m = nat n"
  have n: "n = int m" and m: "m < 10000" using assms by (simp_all add: m_def)
  have spec: "spec_zero_pad 4 n =
      [48 + m div 1000 mod 10, 48 + m div 100 mod 10, 48 + m div 10 mod 10, 48 + m mod 10]"
    unfolding spec_zero_pad_4 n
    by (simp add: nat_div_distrib nat_mod_distrib)
  have fmt: "format_0d 4 n = replicate (4 - length (str_of_nat m)) 48 @ str_of_nat m"
    by (simp add: format_0d_def n Let_def)
  have r: "replicate (4 - 1) x = [x, x, x]" "replicate (4 - 2) x = [x, x]"
    "replicate (4 - 3) x = [x]" for x :: nat
    by (simp_all add: numeral_eq_Suc)
  consider "m < 10" | "10 \<le> m" "m < 100" | "100 \<le> m" "m < 1000" | "1000 \<le> m"
    by linarith
  then show ?thesis
  proof cases
    case 1
    then have "str_of_nat m = [48 + m]" by (simp add: str_of_nat_1)
    with 1 r(1) [of 48] show ?thesis unfolding fmt spec by simp
  next
    case 2
    then have "str_of_nat m = [48 + m div 10, 48 + m mod 10]" by (simp add: str_of_nat_2)
    with 2 r(2) [of 48] show ?thesis unfolding fmt spec by simp
  next
    case 3
    then have "str_of_nat m = [48 + m div 100, 48 + m div 10 mod 10, 48 + m mod 10]"
      by (simp add: str_of_nat_3)
    with 3 r(3) [of 48] show ?thesis unfolding fmt spec by simp
  next
    case 4
    with m have "str_of_nat m =
        [48 + m div 1000, 48 + m div 100 mod 10, 48 + m div 10 mod 10, 48 + m mod 10]"
      by (simp add: str_of_nat_4)
    with 4 m show ?thesis unfolding fmt spec by simp
  qed
qed

lemma length_spec_zero_pad [simp]: "length (spec_zero_pad w n) = w"
  by (simp add: spec_zero_pad_def)

lemma mod_10_le_9: "(x::int) mod 10 \<le> 9"
  using pos_mod_bound [of 10 x] by simp

lemma spec_zero_pad_digits: "list_all (\<lambda>c. 48 \<le> c \<and> c \<le> 57) (spec_zero_pad w n)"
  by (simp add: spec_zero_pad_def list_all_iff nat_le_iff mod_10_le_9)

lemma finite_generate_demographic_pins: "finite (generate_demographic_pins date_obj len)"
  by (simp add: generate_demographic_pins_def Let_def split: option.split)

section \<open>The pattern generator: size and other lengths\<close>

text \<open>
  Claim C7. For every date (and for no date at all), the set that the pattern generator
  returns has at most 10 elements when it is called with length 4 and at most 4 elements
  when it is called with length 6.
\<close>

theorem generate_demographic_pins_card:
  "card (generate_demographic_pins date_obj 4) \<le> 10 \<and>
   card (generate_demographic_pins date_obj 6) \<le> 4"
proof (cases date_obj)
  case None
  then show ?thesis by (simp add: generate_demographic_pins_def)
next
  case (Some d)
  have ten: "card {a1, a2, a3, a4, a5, a6, a7, a8, a9, a10} \<le> 10"
    for a1 a2 a3 a4 a5 a6 a7 a8 a9 a10 :: pystr
    by (rule order_trans [OF card_length [of "[a1, a2, a3, a4, a5, a6, a7, a8, a9, a10]", simplified]]) simp
  have four: "card {a1, a2, a3, a4} \<le> 4" for a1 a2 a3 a4 :: pystr
    by (rule order_trans [OF card_length [of "[a1, a2, a3, a4]", simplified]]) simp
  from Some show ?thesis
    by (simp add: generate_demographic_pins_def Let_def ten four)
qed

text \<open>
  Claim C10. For every date and every length other than 4 and 6,
  \<open>_generate_demographic_pins\<close> returns the empty set: it raises nothing and produces
  no pattern.
\<close>

theorem generate_demographic_pins_other_length:
  "len \<noteq> 4 \<Longrightarrow> len \<noteq> 6 \<Longrightarrow> generate_demographic_pins date_obj len = {}"
  by (simp add: generate_demographic_pins_def Let_def split: option.split)

theorem generate_demographic_pins_other_length_witness:
  "(5::int) \<noteq> 4 \<and> (5::int) \<noteq> 6 \<and>
   generate_demographic_pins (Some \<lparr>year = 1992, month = 8, day = 15\<rparr>) 5 = {}"
  using generate_demographic_pins_other_length [of 5 "Some \<lparr>year = 1992, month = 8, day = 15\<rparr>"]
  by simp

section \<open>The classifier and the specification's reason set\<close>

lemma isdigit_cp_ascii: "48 \<le> c \<Longrightarrow> c \<le> 57 \<Longrightarrow> isdigit_cp c"
  by (simp add: isdigit_cp_def digit_ranges_def)

lemma spec_valid_pin_isdigit: "spec_valid_pin mpin \<Longrightarrow> isdigit mpin"
  by (auto simp: spec_valid_pin_def isdigit_def list_all_iff isdigit_cp_ascii)

lemma spec_valid_pin_length: "spec_valid_pin mpin \<Longrightarrow> length mpin = 4 \<or> length mpin = 6"
  by (simp add: spec_valid_pin_def)

lemma lookup_is_empty: "Mapping.is_empty dm \<Longrightarrow> Mapping.lookup dm key = None"
  by (simp add: Mapping.is_empty_def keys_dom_lookup)

lemma spec_role_reason_None [simp]: "spec_role_reason mpin None key rc = {}"
  by (simp add: spec_role_reason_def role_date_def)

lemma spec_role_reason_is_empty:
  "Mapping.is_empty dm \<Longrightarrow> spec_role_reason mpin (Some dm) key rc = {}"
  by (simp add: spec_role_reason_def role_date_def lookup_is_empty)

lemma finite_spec_role_reason [simp]: "finite (spec_role_reason mpin demographics key rc)"
  by (simp add: spec_role_reason_def split: option.split)

lemma finite_spec_common_reason [simp]: "finite (spec_common_reason mpin)"
  by (simp add: spec_common_reason_def)

lemma demographic_loop_eq:
  "demographic_loop items dm mpin (int (length mpin)) rs =
     rs \<union> (\<Union>(key, rc)\<in>set items. spec_role_reason mpin (Some dm) key rc)"
proof (induction items arbitrary: rs)
  case Nil
  show ?case by simp
next
  case (Cons item items)
  obtain key rc where item: "item = (key, rc)" by (cases item)
  show ?case
    unfolding item
    by (auto simp: Cons.IH spec_role_reason_def role_date_def Let_def split: option.splits)
qed

lemma check_mpin_strength_in_order_invalid:
  "\<not> (isdigit mpin \<and> (length mpin = 4 \<or> length mpin = 6)) \<Longrightarrow>
   check_mpin_strength_in_order items mpin demographics =
     Inl (ValueError ''MPIN must be a 4 or 6-digit string.'')"
  by (auto simp: check_mpin_strength_in_order_def)

lemma check_mpin_strength_in_order_valid:
  assumes "isdigit mpin" "length mpin = 4 \<or> length mpin = 6"
    and R_def: "R = spec_common_reason mpin
                \<union> (\<Union>(key, rc)\<in>set items. spec_role_reason mpin demographics key rc)"
  shows "check_mpin_strength_in_order items mpin demographics =
           Inr \<lparr>strength = (if R \<noteq> {} then str ''WEAK'' else str ''STRONG''),
                reasons = sorted_list_of_set R\<rparr>"
proof -
  let ?c = "if mpin \<in> (if int (length mpin) = 4 then COMMONLY_USED_4_DIGIT_PINS
                         else COMMONLY_USED_6_DIGIT_PINS)
            then insert (str ''COMMONLY_USED'') {} else {}"
  let ?X = "case demographics of
              None \<Rightarrow> ?c
            | Some dm \<Rightarrow>
                if Mapping.is_empty dm then ?c
                else demographic_loop items dm mpin (int (length mpin)) ?c"
  have valid: "\<not> (\<not> isdigit mpin \<or> int (length mpin) \<notin> set [4, 6])"
    using assms(1,2) by auto
  have unfolded: "check_mpin_strength_in_order items mpin demographics =
      Inr \<lparr>strength = (if ?X \<noteq> {} then str ''WEAK'' else str ''STRONG''),
           reasons = sorted_list_of_set ?X\<rparr>"
    by (simp only: check_mpin_strength_in_order_def Let_def if_not_P [OF valid])
  have c: "?c = spec_common_reason mpin"
    by (simp add: spec_common_reason_def)
  have X: "?X = R"
    unfolding c
    by (auto simp: R_def demographic_loop_eq spec_role_reason_is_empty split: option.split)
  show ?thesis
    unfolding unfolded X ..
qed

lemma strength_names_distinct: "str ''WEAK'' \<noteq> str ''STRONG''"
  by (simp add: str_def)

lemma demographic_map_roles:
  "(\<Union>(key, rc)\<in>set demographic_map. spec_role_reason mpin demographics key rc) =
     spec_role_reason mpin demographics (str ''dob_self'') (str ''DEMOGRAPHIC_DOB_SELF'')
     \<union> spec_role_reason mpin demographics (str ''dob_spouse'') (str ''DEMOGRAPHIC_DOB_SPOUSE'')
     \<union> spec_role_reason mpin demographics (str ''anniversary'') (str ''DEMOGRAPHIC_ANNIVERSARY'')"
  by (simp add: demographic_map_def Un_assoc)

lemma finite_spec_reasons [simp]: "finite (spec_reasons mpin demographics)"
  by (simp add: spec_reasons_def)

lemma check_mpin_strength_valid:
  assumes "isdigit mpin" "length mpin = 4 \<or> length mpin = 6"
  shows "check_mpin_strength mpin demographics =
           Inr \<lparr>strength = (if spec_reasons mpin demographics \<noteq> {} then str ''WEAK''
                            else str ''STRONG''),
                reasons = sorted_list_of_set (spec_reasons mpin demographics)\<rparr>"
  unfolding check_mpin_strength_def
  by (rule check_mpin_strength_in_order_valid [OF assms])
     (simp only: spec_reasons_def demographic_map_roles Un_assoc)

lemma check_mpin_strength_Inr_valid:
  "check_mpin_strength mpin demographics = Inr r \<Longrightarrow>
   isdigit mpin \<and> (length mpin = 4 \<or> length mpin = 6)"
  using check_mpin_strength_in_order_invalid [of mpin demographic_map demographics]
  by (auto simp: check_mpin_strength_def)

text \<open>The values of the test dictionary.\<close>

lemma role_date_test_demographics:
  "role_date (Some test_demographics) (str ''dob_self'') = Some \<lparr>year = 1992, month = 8, day = 15\<rparr>"
  "role_date (Some test_demographics) (str ''dob_spouse'') = Some \<lparr>year = 1994, month = 3, day = 3\<rparr>"
  "role_date (Some test_demographics) (str ''anniversary'') = Some \<lparr>year = 2018, month = 11, day = 20\<rparr>"
  by (simp_all add: role_date_def test_demographics_def lookup_of_alist str_def)

lemma format_0d_eval:
  "format_0d 2 15 = str ''15''" "format_0d 2 8 = str ''08''" "format_0d 2 92 = str ''92''"
  "format_0d 4 1992 = str ''1992''"
  "format_0d 2 3 = str ''03''" "format_0d 2 94 = str ''94''" "format_0d 4 1994 = str ''1994''"
  "format_0d 2 20 = str ''20''" "format_0d 2 11 = str ''11''" "format_0d 2 18 = str ''18''"
  "format_0d 4 2018 = str ''2018''" "format_0d 4 2003 = str ''2003''"
  by (simp_all add: format_0d_2 format_0d_4 spec_zero_pad_2 spec_zero_pad_4 str_def)

section \<open>The classifier on the data of the notebook's tests\<close>

lemma generate_demographic_pins_test_4:
  "generate_demographic_pins (Some \<lparr>year = 1992, month = 8, day = 15\<rparr>) 4 =
     str ` {''1508'', ''0815'', ''1992'', ''1592'', ''9215'', ''0892'', ''9208'', ''1515'',
            ''0808'', ''9292''}"
  "generate_demographic_pins (Some \<lparr>year = 1994, month = 3, day = 3\<rparr>) 4 =
     str ` {''0303'', ''1994'', ''0394'', ''9403'', ''9494''}"
  "generate_demographic_pins (Some \<lparr>year = 2018, month = 11, day = 20\<rparr>) 4 =
     str ` {''2011'', ''1120'', ''2018'', ''2018'', ''1820'', ''1118'', ''1811'', ''2020'',
            ''1111'', ''1818''}"
  by (simp_all add: generate_demographic_pins_def format_0d_eval Let_def)
     (auto simp: str_def)

lemma spec_valid_pin_test:
  "spec_valid_pin (str ''5839'')" "spec_valid_pin (str ''1992'')" "spec_valid_pin (str ''1111'')"
  "spec_valid_pin (str ''1234'')"
  by (simp_all add: spec_valid_pin_def str_def)

lemma length_test_pins:
  "length (str ''5839'') = 4" "length (str ''1992'') = 4" "length (str ''1111'') = 4"
  "length (str ''1234'') = 4"
  by (simp_all add: str_def)

lemma spec_common_reason_test:
  "spec_common_reason (str ''5839'') = {}"
  "spec_common_reason (str ''1992'') = {str ''COMMONLY_USED''}"
  "spec_common_reason (str ''1111'') = {str ''COMMONLY_USED''}"
  "spec_common_reason (str ''1234'') = {str ''COMMONLY_USED''}"
  by (simp_all add: spec_common_reason_def length_test_pins COMMONLY_USED_4_DIGIT_PINS_def)
     (simp_all add: str_def)

lemma spec_role_reason_test_5839:
  "spec_role_reason (str ''5839'') (Some test_demographics) (str ''dob_self'') rc = {}"
  "spec_role_reason (str ''5839'') (Some test_demographics) (str ''dob_spouse'') rc = {}"
  "spec_role_reason (str ''5839'') (Some test_demographics) (str ''anniversary'') rc = {}"
  by (simp_all add: spec_role_reason_def role_date_test_demographics length_test_pins
        generate_demographic_pins_test_4) (simp_all add: str_def)

lemma spec_role_reason_test_1992:
  "spec_role_reason (str ''1992'') (Some test_demographics) (str ''dob_self'') rc = {rc}"
  "spec_role_reason (str ''1992'') (Some test_demographics) (str ''dob_spouse'') rc = {}"
  "spec_role_reason (str ''1992'') (Some test_demographics) (str ''anniversary'') rc = {}"
  by (simp_all add: spec_role_reason_def role_date_test_demographics length_test_pins
        generate_demographic_pins_test_4) (simp_all add: str_def)

lemma spec_role_reason_test_1111:
  "spec_role_reason (str ''1111'') (Some test_demographics) (str ''dob_self'') rc = {}"
  "spec_role_reason (str ''1111'') (Some test_demographics) (str ''dob_spouse'') rc = {}"
  "spec_role_reason (str ''1111'') (Some test_demographics) (str ''anniversary'') rc = {rc}"
  by (simp_all add: spec_role_reason_def role_date_test_demographics length_test_pins
        generate_demographic_pins_test_4) (simp_all add: str_def)

lemma spec_reasons_test:
  "spec_reasons (str ''5839'') (Some test_demographics) = {}"
  "spec_reasons (str ''1992'') (Some test_demographics) =
     {str ''COMMONLY_USED'', str ''DEMOGRAPHIC_DOB_SELF''}"
  "spec_reasons (str ''1111'') (Some test_demographics) =
     {str ''COMMONLY_USED'', str ''DEMOGRAPHIC_ANNIVERSARY''}"
  "spec_reasons (str ''1234'') None = {str ''COMMONLY_USED''}"
  by (simp_all add: spec_reasons_def spec_common_reason_test spec_role_reason_test_5839
        spec_role_reason_test_1992 spec_role_reason_test_1111 insert_commute)

lemma reason_names_order:
  "str ''COMMONLY_USED'' < str ''DEMOGRAPHIC_DOB_SELF''"
  "str ''COMMONLY_USED'' < str ''DEMOGRAPHIC_ANNIVERSARY''"
  by (simp_all add: str_def)

lemma sorted_list_of_set_pair:
  "a < b \<Longrightarrow> sorted_list_of_set {a, b} = [a, b::pystr]"
  by (simp add: less_le insort_is_Cons)

lemma sorted_reasons_test:
  "sorted_list_of_set {str ''COMMONLY_USED'', str ''DEMOGRAPHIC_DOB_SELF''} =
     [str ''COMMONLY_USED'', str ''DEMOGRAPHIC_DOB_SELF'']"
  "sorted_list_of_set {str ''COMMONLY_USED'', str ''DEMOGRAPHIC_ANNIVERSARY''} =
     [str ''COMMONLY_USED'', str ''DEMOGRAPHIC_ANNIVERSARY'']"
  by (rule sorted_list_of_set_pair, rule reason_names_order)+

lemma check_mpin_strength_test:
  "check_mpin_strength (str ''5839'') (Some test_demographics) =
     Inr \<lparr>strength = str ''STRONG'', reasons = []\<rparr>"
  "check_mpin_strength (str ''1992'') (Some test_demographics) =
     Inr \<lparr>strength = str ''WEAK'',
          reasons = [str ''COMMONLY_USED'', str ''DEMOGRAPHIC_DOB_SELF'']\<rparr>"
  "check_mpin_strength (str ''1111'') (Some test_demographics) =
     Inr \<lparr>strength = str ''WEAK'',
          reasons = [str ''COMMONLY_USED'', str ''DEMOGRAPHIC_ANNIVERSARY'']\<rparr>"
  "check_mpin_strength (str ''1234'') None =
     Inr \<lparr>strength = str ''WEAK'', reasons = [str ''COMMONLY_USED'']\<rparr>"
  by (simp_all add: check_mpin_strength_valid spec_valid_pin_isdigit spec_valid_pin_test
        length_test_pins spec_reasons_test sorted_reasons_test
        del: sorted_list_of_set_insert_remove)

section \<open>Every returned classification\<close>

text \<open>
  What holds of every result that the classifier returns, whatever the PIN it accepted
  (\<open>str.isdigit\<close> accepts more than the strings of \<open>0\<close>..\<open>9\<close>).
\<close>

lemma check_mpin_strength_Inr:
  assumes "check_mpin_strength mpin demographics = Inr r"
  shows "r = \<lparr>strength = (if spec_reasons mpin demographics \<noteq> {} then str ''WEAK''
                           else str ''STRONG''),
               reasons = sorted_list_of_set (spec_reasons mpin demographics)\<rparr>"
proof -
  from check_mpin_strength_Inr_valid [OF assms]
  have "isdigit mpin" "length mpin = 4 \<or> length mpin = 6" by simp_all
  from check_mpin_strength_valid [OF this, of demographics] assms
  show ?thesis by simp
qed

lemma result_strength_iff:
  assumes "check_mpin_strength mpin demographics = Inr r"
  shows "(strength r = str ''STRONG'' \<longleftrightarrow> reasons r = []) \<and>
         (strength r = str ''WEAK'' \<longleftrightarrow> reasons r \<noteq> [])"
  unfolding check_mpin_strength_Inr [OF assms]
  using strength_names_distinct by simp

lemma result_reasons_sorted:
  assumes "check_mpin_strength mpin demographics = Inr r"
  shows "sorted (reasons r) \<and> distinct (reasons r)"
  unfolding check_mpin_strength_Inr [OF assms] by simp

lemma check_mpin_strength_in_order_mset:
  assumes "mset items = mset demographic_map"
  shows "check_mpin_strength_in_order items mpin demographics =
         check_mpin_strength mpin demographics"
proof (cases "isdigit mpin \<and> (length mpin = 4 \<or> length mpin = 6)")
  case True
  from assms have "set items = set demographic_map" by (rule mset_eq_setD)
  then have "spec_reasons mpin demographics =
      spec_common_reason mpin
      \<union> (\<Union>(key, rc)\<in>set items. spec_role_reason mpin demographics key rc)"
    by (simp only: spec_reasons_def demographic_map_roles Un_assoc)
  with True show ?thesis
    by (simp only: check_mpin_strength_valid check_mpin_strength_in_order_valid)
next
  case False
  then show ?thesis
    unfolding check_mpin_strength_def
    by (simp only: check_mpin_strength_in_order_invalid [OF False])
qed

lemma spec_role_reason_mono:
  assumes "role_date d key = None \<or> role_date d' key = role_date d key"
  shows "spec_role_reason mpin d key rc \<subseteq> spec_role_reason mpin d' key rc"
  using assms by (auto simp: spec_role_reason_def split: option.splits)

lemma spec_reasons_mono:
  assumes "spec_extends d d'"
  shows "spec_reasons mpin d \<subseteq> spec_reasons mpin d'"
proof -
  from assms have
    "role_date d (str ''dob_self'') = None \<or>
       role_date d' (str ''dob_self'') = role_date d (str ''dob_self'')"
    "role_date d (str ''dob_spouse'') = None \<or>
       role_date d' (str ''dob_spouse'') = role_date d (str ''dob_spouse'')"
    "role_date d (str ''anniversary'') = None \<or>
       role_date d' (str ''anniversary'') = role_date d (str ''anniversary'')"
    by (simp_all add: spec_extends_def demographic_map_def)
  from this [THEN spec_role_reason_mono] show ?thesis
    unfolding spec_reasons_def by blast
qed

lemma result_mono:
  assumes "spec_extends d d'" and "check_mpin_strength mpin d = Inr r"
  shows "\<exists>r'. check_mpin_strength mpin d' = Inr r' \<and>
              set (reasons r) \<subseteq> set (reasons r') \<and>
              (strength r = str ''WEAK'' \<longrightarrow> strength r' = str ''WEAK'') \<and>
              (strength r' = str ''STRONG'' \<longrightarrow> strength r = str ''STRONG'')"
proof -
  from check_mpin_strength_Inr_valid [OF assms(2)]
  have valid: "isdigit mpin" "length mpin = 4 \<or> length mpin = 6" by simp_all
  from spec_reasons_mono [OF assms(1), of mpin] strength_names_distinct
  show ?thesis
    unfolding check_mpin_strength_valid [OF valid, of d'] check_mpin_strength_Inr [OF assms(2)]
    by auto
qed

lemma role_date_self_only:
  "role_date (Some (Mapping.of_alist [(str ''dob_self'', Some dt)])) key =
     (if key = str ''dob_self'' then Some dt else None)"
  by (simp add: role_date_def lookup_of_alist)

lemma role_keys_distinct:
  "str ''dob_spouse'' \<noteq> str ''dob_self''" "str ''anniversary'' \<noteq> str ''dob_self''"
  by (simp_all add: str_def)

lemma spec_extends_test:
  "spec_extends
     (Some (Mapping.of_alist [(str ''dob_self'', Some \<lparr>year = 1992, month = 8, day = 15\<rparr>)]))
     (Some test_demographics)"
  by (simp add: spec_extends_def demographic_map_def role_date_self_only
        role_date_test_demographics role_keys_distinct)

lemma spec_role_reason_self_only_1111:
  "spec_role_reason (str ''1111'')
     (Some (Mapping.of_alist [(str ''dob_self'', Some \<lparr>year = 1992, month = 8, day = 15\<rparr>)]))
     (str ''dob_self'') rc = {}"
  "spec_role_reason (str ''1111'')
     (Some (Mapping.of_alist [(str ''dob_self'', Some \<lparr>year = 1992, month = 8, day = 15\<rparr>)]))
     (str ''dob_spouse'') rc = {}"
  "spec_role_reason (str ''1111'')
     (Some (Mapping.of_alist [(str ''dob_self'', Some \<lparr>year = 1992, month = 8, day = 15\<rparr>)]))
     (str ''anniversary'') rc = {}"
  by (simp_all add: spec_role_reason_def role_date_self_only role_keys_distinct
        length_test_pins generate_demographic_pins_test_4) (simp add: str_def)

lemma spec_reasons_self_only_1111:
  "spec_reasons (str ''1111'')
     (Some (Mapping.of_alist [(str ''dob_self'', Some \<lparr>year = 1992, month = 8, day = 15\<rparr>)])) =
   {str ''COMMONLY_USED''}"
  by (simp add: spec_reasons_def spec_common_reason_test spec_role_reason_self_only_1111)

lemma check_mpin_strength_self_only_1111:
  "check_mpin_strength (str ''1111'')
     (Some (Mapping.of_alist [(str ''dob_self'', Some \<lparr>year = 1992, month = 8, day = 15\<rparr>)])) =
   Inr \<lparr>strength = str ''WEAK'', reasons = [str ''COMMONLY_USED'']\<rparr>"
  by (simp add: check_mpin_strength_valid spec_valid_pin_isdigit spec_valid_pin_test
        length_test_pins spec_reasons_self_only_1111)

section \<open>Claims about the classifier\<close>

text \<open>
  Claim C9. For every PIN made of the decimal digits \<open>0\<close>..\<open>9\<close> only, of length 4 or 6,
  and every \<open>demographics\<close> argument (a dictionary of optional dates, or \<open>None\<close>),
  \<open>check_mpin_strength\<close> returns a result and raises nothing: the branch that raises
  \<open>ValueError\<close> is not taken.
\<close>

theorem check_mpin_strength_total:
  "spec_valid_pin mpin \<Longrightarrow>
   (\<exists>r. check_mpin_strength mpin demographics = Inr r) \<and>
   (\<forall>e. check_mpin_strength mpin demographics \<noteq> Inl e)"
  by (simp add: check_mpin_strength_valid spec_valid_pin_isdigit spec_valid_pin_length)

theorem check_mpin_strength_total_witness:
  "spec_valid_pin (str ''5839'') \<and>
   (\<exists>r. check_mpin_strength (str ''5839'') (Some test_demographics) = Inr r) \<and>
   (\<exists>r. check_mpin_strength (str ''5839'') None = Inr r)"
  using check_mpin_strength_total [OF spec_valid_pin_test(1), of "Some test_demographics"]
    check_mpin_strength_total [OF spec_valid_pin_test(1), of None]
    spec_valid_pin_test(1)
  by simp

text \<open>
  Claim C1. For every valid PIN and every \<open>demographics\<close> argument, the set of the
  returned reasons is the union of \<open>COMMONLY_USED\<close>, when the PIN is in the table of
  common PINs of its length, and, for each of the roles \<open>dob_self\<close>, \<open>dob_spouse\<close>
  and \<open>anniversary\<close> whose date is present, of the role's reason code, when the PIN is
  in the pattern set generated from that date at the PIN's length. When that union is
  empty the strength is \<open>STRONG\<close> and the list of reasons is empty.
\<close>

theorem check_mpin_strength_reasons:
  "spec_valid_pin mpin \<Longrightarrow>
   \<exists>r. check_mpin_strength mpin demographics = Inr r \<and>
       set (reasons r) = spec_reasons mpin demographics \<and>
       (spec_reasons mpin demographics = {} \<longrightarrow>
          strength r = str ''STRONG'' \<and> reasons r = [])"
  by (simp add: check_mpin_strength_valid spec_valid_pin_isdigit spec_valid_pin_length)

theorem check_mpin_strength_reasons_witness:
  "spec_valid_pin (str ''5839'') \<and>
   spec_reasons (str ''5839'') (Some test_demographics) = {} \<and>
   (\<exists>r. check_mpin_strength (str ''5839'') (Some test_demographics) = Inr r \<and>
        strength r = str ''STRONG'' \<and> reasons r = []) \<and>
   spec_valid_pin (str ''1992'') \<and>
   (\<exists>r. check_mpin_strength (str ''1992'') (Some test_demographics) = Inr r \<and>
        set (reasons r) = {str ''COMMONLY_USED'', str ''DEMOGRAPHIC_DOB_SELF''})"
  using check_mpin_strength_reasons [OF spec_valid_pin_test(1), of "Some test_demographics"]
    check_mpin_strength_reasons [OF spec_valid_pin_test(2), of "Some test_demographics"]
    spec_valid_pin_test(1,2)
  by (auto simp: spec_reasons_test)

text \<open>
  Claim C5. For every valid input a classification is returned, and its strength is
  \<open>STRONG\<close> exactly when its list of reasons is empty, and \<open>WEAK\<close> exactly when the
  list is not empty.
\<close>

theorem strength_strong_iff_no_reasons:
  assumes "spec_valid_pin mpin"
  shows "\<exists>r. check_mpin_strength mpin demographics = Inr r \<and>
             (strength r = str ''STRONG'' \<longleftrightarrow> reasons r = []) \<and>
             (strength r = str ''WEAK'' \<longleftrightarrow> reasons r \<noteq> [])"
proof -
  from assms obtain r where r: "check_mpin_strength mpin demographics = Inr r"
    by (simp add: check_mpin_strength_valid spec_valid_pin_isdigit spec_valid_pin_length)
  with result_strength_iff [OF r] show ?thesis by simp
qed

theorem strength_strong_iff_no_reasons_witness:
  "spec_valid_pin (str ''1234'') \<and>
   check_mpin_strength (str ''1234'') None =
     Inr \<lparr>strength = str ''WEAK'', reasons = [str ''COMMONLY_USED'']\<rparr> \<and>
   spec_valid_pin (str ''5839'') \<and>
   check_mpin_strength (str ''5839'') (Some test_demographics) =
     Inr \<lparr>strength = str ''STRONG'', reasons = []\<rparr> \<and>
   str ''WEAK'' \<noteq> str ''STRONG''"
  using strength_strong_iff_no_reasons [OF spec_valid_pin_test(4), of None]
    strength_strong_iff_no_reasons [OF spec_valid_pin_test(1), of "Some test_demographics"]
    check_mpin_strength_test(1,4) spec_valid_pin_test(1,4)
  by simp

text \<open>
  Claim C6. For every valid input the list of reasons in the returned classification is
  sorted in the lexicographic order of the tag names (the order of Python strings),
  holds no tag twice, and is the same whatever the order in which the roles are checked:
  the body run over any rearrangement of the items of \<open>demographic_map\<close> returns the
  same result.
\<close>

theorem reasons_sorted_distinct:
  assumes "spec_valid_pin mpin"
  shows "\<exists>r. check_mpin_strength mpin demographics = Inr r \<and>
             sorted (reasons r) \<and> distinct (reasons r) \<and>
             (\<forall>items. mset items = mset demographic_map \<longrightarrow>
                check_mpin_strength_in_order items mpin demographics = Inr r)"
proof -
  from assms obtain r where r: "check_mpin_strength mpin demographics = Inr r"
    by (simp add: check_mpin_strength_valid spec_valid_pin_isdigit spec_valid_pin_length)
  with result_reasons_sorted [OF r] show ?thesis
    by (simp add: check_mpin_strength_in_order_mset)
qed

theorem reasons_sorted_distinct_witness:
  "spec_valid_pin (str ''1992'') \<and>
   check_mpin_strength (str ''1992'') (Some test_demographics) =
     Inr \<lparr>strength = str ''WEAK'',
          reasons = [str ''COMMONLY_USED'', str ''DEMOGRAPHIC_DOB_SELF'']\<rparr> \<and>
   sorted [str ''COMMONLY_USED'', str ''DEMOGRAPHIC_DOB_SELF''] \<and>
   distinct [str ''COMMONLY_USED'', str ''DEMOGRAPHIC_DOB_SELF''] \<and>
   mset (rev demographic_map) = mset demographic_map \<and>
   check_mpin_strength_in_order (rev demographic_map) (str ''1992'') (Some test_demographics) =
     Inr \<lparr>strength = str ''WEAK'',
          reasons = [str ''COMMONLY_USED'', str ''DEMOGRAPHIC_DOB_SELF'']\<rparr>"
  using reasons_sorted_distinct [OF spec_valid_pin_test(2), of "Some test_demographics"]
    check_mpin_strength_test(2) spec_valid_pin_test(2)
  by simp

text \<open>
  Claim C8. For every valid PIN, when \<open>d'\<close> agrees with \<open>d\<close> on every role that \<open>d\<close>
  has a date for (and may supply dates for more roles), the reasons returned under \<open>d\<close>
  are among the reasons returned under \<open>d'\<close>. So a verdict \<open>WEAK\<close> stays \<open>WEAK\<close> when
  dates are added, and a verdict \<open>STRONG\<close> after adding dates was \<open>STRONG\<close> before.
\<close>

theorem reasons_mono_in_demographics:
  assumes "spec_valid_pin mpin" and "spec_extends d d'"
  shows "\<exists>r r'. check_mpin_strength mpin d = Inr r \<and>
               check_mpin_strength mpin d' = Inr r' \<and>
               set (reasons r) \<subseteq> set (reasons r') \<and>
               (strength r = str ''WEAK'' \<longrightarrow> strength r' = str ''WEAK'') \<and>
               (strength r' = str ''STRONG'' \<longrightarrow> strength r = str ''STRONG'')"
proof -
  from assms(1) obtain r where r: "check_mpin_strength mpin d = Inr r"
    by (simp add: check_mpin_strength_valid spec_valid_pin_isdigit spec_valid_pin_length)
  from result_mono [OF assms(2) r] r show ?thesis by blast
qed

theorem reasons_mono_in_demographics_witness:
  "spec_valid_pin (str ''1111'') \<and>
   spec_extends
     (Some (Mapping.of_alist [(str ''dob_self'', Some \<lparr>year = 1992, month = 8, day = 15\<rparr>)]))
     (Some test_demographics) \<and>
   check_mpin_strength (str ''1111'')
     (Some (Mapping.of_alist [(str ''dob_self'', Some \<lparr>year = 1992, month = 8, day = 15\<rparr>)])) =
     Inr \<lparr>strength = str ''WEAK'', reasons = [str ''COMMONLY_USED'']\<rparr> \<and>
   check_mpin_strength (str ''1111'') (Some test_demographics) =
     Inr \<lparr>strength = str ''WEAK'',
          reasons = [str ''COMMONLY_USED'', str ''DEMOGRAPHIC_ANNIVERSARY'']\<rparr>"
  using reasons_mono_in_demographics [OF spec_valid_pin_test(3) spec_extends_test]
    spec_valid_pin_test(3) spec_extends_test check_mpin_strength_self_only_1111
    check_mpin_strength_test(3)
  by simp

section \<open>Claims about the patterns of a date\<close>

lemma days_in_month_le: "days_in_month y m \<le> 31"
  by (simp add: days_in_month_def)

lemma is_calendar_date_format:
  assumes "is_calendar_date d"
  shows "format_0d 2 (day d) = spec_dd d" "format_0d 2 (month d) = spec_mm d"
    "format_0d 2 (year d mod 100) = spec_yy d" "format_0d 4 (year d) = spec_yyyy d"
proof -
  from assms have "0 \<le> day d" "day d \<le> days_in_month (year d) (month d)"
    "0 \<le> month d" "month d < 100" "0 \<le> year d" "year d < 10000"
    by (simp_all add: is_calendar_date_def)
  moreover from this(2) days_in_month_le [of "year d" "month d"] have "day d < 100" by simp
  ultimately show "format_0d 2 (day d) = spec_dd d" "format_0d 2 (month d) = spec_mm d"
    "format_0d 2 (year d mod 100) = spec_yy d" "format_0d 4 (year d) = spec_yyyy d"
    by (simp_all add: format_0d_2 format_0d_4 spec_dd_def spec_mm_def spec_yy_def spec_yyyy_def)
qed

text \<open>
  Claim C3. For every calendar date, the pattern generator called with length 4 returns
  exactly the set of \<open>dd+mm\<close>, \<open>mm+dd\<close>, \<open>yyyy\<close>, \<open>dd+yy\<close>, \<open>yy+dd\<close>, \<open>mm+yy\<close>,
  \<open>yy+mm\<close>, \<open>dd+dd\<close>, \<open>mm+mm\<close> and \<open>yy+yy\<close>, where \<open>dd\<close> and \<open>mm\<close> are the day and
  the month zero-padded to 2 digits, \<open>yy\<close> is the last two digits of the year
  zero-padded to 2 digits and \<open>yyyy\<close> is the year zero-padded to 4 digits.
\<close>

theorem generate_demographic_pins_length_4:
  "is_calendar_date d \<Longrightarrow>
   generate_demographic_pins (Some d) 4 =
     {spec_dd d @ spec_mm d, spec_mm d @ spec_dd d, spec_yyyy d, spec_dd d @ spec_yy d,
      spec_yy d @ spec_dd d, spec_mm d @ spec_yy d, spec_yy d @ spec_mm d,
      spec_dd d @ spec_dd d, spec_mm d @ spec_mm d, spec_yy d @ spec_yy d}"
  by (simp add: generate_demographic_pins_def Let_def is_calendar_date_format)

lemma is_calendar_date_test:
  "is_calendar_date \<lparr>year = 1992, month = 8, day = 15\<rparr>"
  "is_calendar_date \<lparr>year = 2020, month = 5, day = 20\<rparr>"
  by (simp_all add: is_calendar_date_def days_in_month_def)

lemma spec_fields_test:
  "spec_dd \<lparr>year = 1992, month = 8, day = 15\<rparr> = str ''15''"
  "spec_mm \<lparr>year = 1992, month = 8, day = 15\<rparr> = str ''08''"
  "spec_yy \<lparr>year = 1992, month = 8, day = 15\<rparr> = str ''92''"
  "spec_yyyy \<lparr>year = 1992, month = 8, day = 15\<rparr> = str ''1992''"
  "spec_dd \<lparr>year = 2020, month = 5, day = 20\<rparr> = str ''20''"
  "spec_mm \<lparr>year = 2020, month = 5, day = 20\<rparr> = str ''05''"
  "spec_yy \<lparr>year = 2020, month = 5, day = 20\<rparr> = str ''20''"
  "spec_yyyy \<lparr>year = 2020, month = 5, day = 20\<rparr> = str ''2020''"
  by (simp_all add: spec_dd_def spec_mm_def spec_yy_def spec_yyyy_def spec_zero_pad_2
        spec_zero_pad_4 str_def)

theorem generate_demographic_pins_length_4_witness:
  "is_calendar_date \<lparr>year = 1992, month = 8, day = 15\<rparr> \<and>
   generate_demographic_pins (Some \<lparr>year = 1992, month = 8, day = 15\<rparr>) 4 =
     {str ''1508'', str ''0815'', str ''1992'', str ''1592'', str ''9215'', str ''0892'',
      str ''9208'', str ''1515'', str ''0808'', str ''9292''}"
  using generate_demographic_pins_length_4 [OF is_calendar_date_test(1)] is_calendar_date_test(1)
  by (simp add: spec_fields_test str_def)

text \<open>
  Claim C4. For every calendar date, the pattern generator called with length 6 returns
  exactly the set of \<open>dd+mm+yy\<close>, \<open>mm+dd+yy\<close>, \<open>yy+mm+dd\<close> and \<open>yy+dd+mm\<close>, and no
  other string. No pattern is built from \<open>yyyy\<close>: the string \<open>yyyy+mm\<close> is in the
  result only when it is equal to one of those four strings.
\<close>

theorem generate_demographic_pins_length_6:
  "is_calendar_date d \<Longrightarrow>
   generate_demographic_pins (Some d) 6 =
     {spec_dd d @ spec_mm d @ spec_yy d, spec_mm d @ spec_dd d @ spec_yy d,
      spec_yy d @ spec_mm d @ spec_dd d, spec_yy d @ spec_dd d @ spec_mm d} \<and>
   (spec_yyyy d @ spec_mm d \<in> generate_demographic_pins (Some d) 6 \<longleftrightarrow>
      spec_yyyy d @ spec_mm d = spec_dd d @ spec_mm d @ spec_yy d \<or>
      spec_yyyy d @ spec_mm d = spec_mm d @ spec_dd d @ spec_yy d \<or>
      spec_yyyy d @ spec_mm d = spec_yy d @ spec_mm d @ spec_dd d \<or>
      spec_yyyy d @ spec_mm d = spec_yy d @ spec_dd d @ spec_mm d)"
  by (simp add: generate_demographic_pins_def Let_def is_calendar_date_format)

theorem generate_demographic_pins_length_6_witness:
  "is_calendar_date \<lparr>year = 1992, month = 8, day = 15\<rparr> \<and>
   generate_demographic_pins (Some \<lparr>year = 1992, month = 8, day = 15\<rparr>) 6 =
     {str ''150892'', str ''081592'', str ''920815'', str ''921508''} \<and>
   str ''199208'' \<notin> generate_demographic_pins (Some \<lparr>year = 1992, month = 8, day = 15\<rparr>) 6"
  using generate_demographic_pins_length_6 [OF is_calendar_date_test(1)] is_calendar_date_test(1)
  by (simp add: spec_fields_test str_def)

text \<open>
  The string \<open>yyyy+mm\<close> can be in the result: for the 20th of May 2020 it is
  \<open>202005\<close>, which is also \<open>yy+dd+mm\<close>.
\<close>

theorem generate_demographic_pins_yyyy_mm_counterexample:
  "is_calendar_date \<lparr>year = 2020, month = 5, day = 20\<rparr> \<and>
   spec_yyyy \<lparr>year = 2020, month = 5, day = 20\<rparr> @ spec_mm \<lparr>year = 2020, month = 5, day = 20\<rparr>
     = str ''202005'' \<and>
   str ''202005'' \<in> generate_demographic_pins (Some \<lparr>year = 2020, month = 5, day = 20\<rparr>) 6"
  by (simp add: is_calendar_date_test generate_demographic_pins_def Let_def
        spec_fields_test)
     (simp add: str_def format_0d_2 spec_zero_pad_2)

section \<open>Validation of the PIN\<close>

text \<open>
  The classifier raises \<open>ValueError\<close> exactly when \<open>str.isdigit\<close> rejects the PIN or
  its length is neither 4 nor 6, and a PIN it raises for is never a valid one.
\<close>

lemma check_mpin_strength_raises_iff:
  "check_mpin_strength mpin demographics = Inl (ValueError ''MPIN must be a 4 or 6-digit string.'')
     \<longleftrightarrow> \<not> isdigit mpin \<or> (length mpin \<noteq> 4 \<and> length mpin \<noteq> 6)"
proof (cases "isdigit mpin \<and> (length mpin = 4 \<or> length mpin = 6)")
  case True
  then show ?thesis by (simp add: check_mpin_strength_valid)
next
  case False
  from check_mpin_strength_in_order_invalid [OF False] False show ?thesis
    by (simp add: check_mpin_strength_def)
qed

lemma check_mpin_strength_raises_invalid:
  "check_mpin_strength mpin demographics = Inl e \<Longrightarrow> \<not> spec_valid_pin mpin"
  using check_mpin_strength_valid [of mpin demographics]
  by (auto simp: spec_valid_pin_isdigit spec_valid_pin_length)

lemma isdigit_superscript_two: "isdigit [178, 178, 178, 178]"
  by (simp add: isdigit_def isdigit_cp_def digit_ranges_def)

lemma spec_reasons_superscript_two: "spec_reasons [178, 178, 178, 178] None = {}"
  by (simp add: spec_reasons_def spec_common_reason_def COMMONLY_USED_4_DIGIT_PINS_def)
     (simp add: str_def)

text \<open>
  Claim C2. \<open>check_mpin_strength\<close> should raise the validation error exactly when the
  PIN is not a string of decimal digits only, or its length is neither 4 nor 6. It does
  not: the string of four characters U+00B2 (superscript two) is not a string of decimal
  digits, but \<open>str.isdigit\<close> accepts it, so the classifier raises nothing and returns
  the strength \<open>STRONG\<close> with no reasons.
\<close>

theorem check_mpin_strength_accepts_superscript_digits:
  "\<not> spec_valid_pin [178, 178, 178, 178] \<and>
   check_mpin_strength [178, 178, 178, 178] None =
     Inr \<lparr>strength = str ''STRONG'', reasons = []\<rparr>"
  by (simp add: check_mpin_strength_valid isdigit_superscript_two spec_reasons_superscript_two
        spec_valid_pin_def)

end
